theory Spec2Isabelle
  imports Complex_Main
begin

section \<open>JavaScript numbers\<close>

text \<open>
  A JavaScript number is a binary64 value: NaN, one of the two infinities, negative zero,
  or a finite value, kept as the rational it denotes (\<open>Fin 0\<close> is positive zero). Every
  arithmetic operation computes the exact result and rounds it to the nearest binary64
  value, ties to the even significand. \<open>Fin q\<close> is meant for the \<open>q\<close> that binary64
  represents.
\<close>

datatype jsnum = NaN | PosInfinity | NegInfinity | NegZero | Fin rat

subsection \<open>Rounding to binary64\<close>

text \<open>The number of binary digits of a positive integer.\<close>

function bit_length :: "int \<Rightarrow> int" where
  "bit_length n = (if n \<le> 0 then 0 else 1 + bit_length (n div 2))"
  by pat_completeness auto
termination
  by (relation "measure nat") auto

declare bit_length.simps [simp del]

text \<open>The exponent \<open>e\<close> with \<open>2 ^ e \<le> a < 2 ^ (e + 1)\<close>, for a positive \<open>a\<close>.\<close>

definition floor_log2 :: "rat \<Rightarrow> int" where
  "floor_log2 a =
     (if 1 \<le> a then bit_length \<lfloor>a\<rfloor> - 1
      else - bit_length (\<lceil>1 / a\<rceil> - 1))"

definition pow2 :: "int \<Rightarrow> rat" where
  "pow2 e = (if 0 \<le> e then 2 ^ nat e else 1 / 2 ^ nat (- e))"

definition round_half_even :: "rat \<Rightarrow> int" where
  "round_half_even x =
     (let f = \<lfloor>x\<rfloor>; r = x - of_int f
      in if r < 1 / 2 then f
         else if 1 / 2 < r then f + 1
         else if even f then f else f + 1)"

text \<open>
  The binary64 value nearest to a rational. The significand has 53 bits; below the
  exponent \<open>-1022\<close> the values are evenly spaced (the subnormal range); a result of
  magnitude \<open>2 ^ 1024\<close> or more is an infinity, and a non-zero value that rounds to zero
  keeps its sign.
\<close>

definition round64 :: "rat \<Rightarrow> jsnum" where
  "round64 q =
     (if q = 0 then Fin 0
      else
        let a = \<bar>q\<bar>;
            e = max (floor_log2 a) (- 1022);
            ulp = pow2 (e - 52);
            v = of_int (round_half_even (a / ulp)) * ulp
        in if pow2 1024 \<le> v then (if q < 0 then NegInfinity else PosInfinity)
           else if v = 0 then (if q < 0 then NegZero else Fin 0)
           else Fin (if q < 0 then - v else v))"

definition js_of_nat :: "nat \<Rightarrow> jsnum" where
  "js_of_nat n = round64 (of_nat n)"

subsection \<open>Arithmetic\<close>

fun js_neg :: "jsnum \<Rightarrow> jsnum" where
  "js_neg NaN = NaN"
| "js_neg PosInfinity = NegInfinity"
| "js_neg NegInfinity = PosInfinity"
| "js_neg NegZero = Fin 0"
| "js_neg (Fin a) = (if a = 0 then NegZero else Fin (- a))"

text \<open>
  \<^verbatim>\<open>a + b\<close> on numbers. Opposite infinities give NaN; the sum of two negative zeros is
  negative zero, every other sum that is zero is positive zero.
\<close>

fun js_add :: "jsnum \<Rightarrow> jsnum \<Rightarrow> jsnum" where
  "js_add NaN _ = NaN"
| "js_add _ NaN = NaN"
| "js_add PosInfinity NegInfinity = NaN"
| "js_add NegInfinity PosInfinity = NaN"
| "js_add PosInfinity _ = PosInfinity"
| "js_add _ PosInfinity = PosInfinity"
| "js_add NegInfinity _ = NegInfinity"
| "js_add _ NegInfinity = NegInfinity"
| "js_add NegZero b = b"
| "js_add a NegZero = a"
| "js_add (Fin a) (Fin b) = round64 (a + b)"

definition js_sub :: "jsnum \<Rightarrow> jsnum \<Rightarrow> jsnum" where
  "js_sub a b = js_add a (js_neg b)"

text \<open>The sign bit of a number as \<open>-1\<close> or \<open>1\<close>.\<close>

fun js_sign :: "jsnum \<Rightarrow> int" where
  "js_sign NaN = 1"
| "js_sign PosInfinity = 1"
| "js_sign NegInfinity = - 1"
| "js_sign NegZero = - 1"
| "js_sign (Fin a) = (if a < 0 then - 1 else 1)"

fun is_zero :: "jsnum \<Rightarrow> bool" where
  "is_zero NegZero = True"
| "is_zero (Fin a) = (a = 0)"
| "is_zero _ = False"

fun is_infinite :: "jsnum \<Rightarrow> bool" where
  "is_infinite PosInfinity = True"
| "is_infinite NegInfinity = True"
| "is_infinite _ = False"

definition signed_infinity :: "int \<Rightarrow> jsnum" where
  "signed_infinity s = (if s < 0 then NegInfinity else PosInfinity)"

definition signed_zero :: "int \<Rightarrow> jsnum" where
  "signed_zero s = (if s < 0 then NegZero else Fin 0)"

text \<open>
  \<^verbatim>\<open>a * b\<close>: an infinity times a zero is NaN; the sign of every other product is the
  product of the signs.
\<close>

fun js_mul :: "jsnum \<Rightarrow> jsnum \<Rightarrow> jsnum" where
  "js_mul NaN _ = NaN"
| "js_mul _ NaN = NaN"
| "js_mul (Fin a) (Fin b) = (if a = 0 \<or> b = 0 then signed_zero (js_sign (Fin a) * js_sign (Fin b))
                             else round64 (a * b))"
| "js_mul a b =
     (if (is_infinite a \<and> is_zero b) \<or> (is_zero a \<and> is_infinite b) then NaN
      else if is_infinite a \<or> is_infinite b then signed_infinity (js_sign a * js_sign b)
      else signed_zero (js_sign a * js_sign b))"

text \<open>
  \<^verbatim>\<open>a / b\<close>: a zero over a zero and an infinity over an infinity are NaN; a non-zero
  value over a zero and an infinity over a finite value are infinities; a zero over a
  non-zero value and a finite value over an infinity are zeros; the sign is the product
  of the signs.
\<close>

fun js_div :: "jsnum \<Rightarrow> jsnum \<Rightarrow> jsnum" where
  "js_div NaN _ = NaN"
| "js_div _ NaN = NaN"
| "js_div (Fin a) (Fin b) =
     (if b = 0 then (if a = 0 then NaN else signed_infinity (js_sign (Fin a) * js_sign (Fin b)))
      else if a = 0 then signed_zero (js_sign (Fin a) * js_sign (Fin b))
      else round64 (a / b))"
| "js_div a b =
     (if (is_infinite a \<and> is_infinite b) \<or> (is_zero a \<and> is_zero b) then NaN
      else if is_infinite a \<or> is_zero b then signed_infinity (js_sign a * js_sign b)
      else signed_zero (js_sign a * js_sign b))"

text \<open>\<^verbatim>\<open>Math.ceil\<close>: a value in \<open>(-1, 0)\<close> gives negative zero.\<close>

fun js_ceil :: "jsnum \<Rightarrow> jsnum" where
  "js_ceil (Fin a) = (if a < 0 \<and> \<lceil>a\<rceil> = 0 then NegZero else Fin (of_int \<lceil>a\<rceil>))"
| "js_ceil n = n"

section \<open>JavaScript values\<close>

text \<open>
  A string is the list of its UTF-16 code units. A value is one that \<^verbatim>\<open>JSON.parse\<close> can
  build, or \<^verbatim>\<open>undefined\<close>: an object is a plain object, the list of its own properties.
\<close>

type_synonym jsstring = "nat list"

datatype jsval =
    Undefined
  | Null
  | Bool bool
  | Num jsnum
  | Str jsstring
  | Obj "(string \<times> jsval) list"
  | Arr "jsval list"

text \<open>The code units of an ASCII text, and the string value of it.\<close>

definition js :: "string \<Rightarrow> jsstring" where
  "js s = map of_char s"

definition str :: "string \<Rightarrow> jsval" where
  "str s = Str (js s)"

text \<open>The truthiness test of \<^verbatim>\<open>if (v)\<close>, \<^verbatim>\<open>!v\<close> and \<^verbatim>\<open>c ? a : b\<close>.\<close>

fun truthy :: "jsval \<Rightarrow> bool" where
  "truthy Undefined = False"
| "truthy Null = False"
| "truthy (Bool b) = b"
| "truthy (Num n) = (n \<noteq> NaN \<and> \<not> is_zero n)"
| "truthy (Str s) = (s \<noteq> [])"
| "truthy (Obj _) = True"
| "truthy (Arr _) = True"

section \<open>Errors\<close>

text \<open>
  Every failure of the services is a JavaScript exception. \<open>Error m\<close> is the object that
  \<^verbatim>\<open>new Error(m)\<close> builds in the service code; \<open>StoreError m\<close> is the exception a call of
  the persistence layer rejects with, \<open>m\<close> its message; \<open>ReferenceError\<close> and \<open>TypeError\<close>
  are raised by the language, for an identifier that is not bound, for a value that cannot
  be converted to a primitive and for a call of what is not a function; \<open>HeadersSent\<close> is
  what the HTTP response raises when a second response is sent.
\<close>

datatype js_error =
    Error string
  | StoreError string
  | ReferenceError string
  | TypeError string
  | HeadersSent

fun message :: "js_error \<Rightarrow> string" where
  "message (Error m) = m"
| "message (StoreError m) = m"
| "message (ReferenceError m) = m"
| "message (TypeError m) = m"
| "message HeadersSent = ''Cannot set headers after they are sent to the client''"

section \<open>\<^verbatim>\<open>Number(v)\<close>\<close>

text \<open>
  The white space that the conversion of a string to a number trims: TAB, LF, VT, FF, CR,
  space, no-break space, the other space separators of Unicode, the line and paragraph
  separators and the byte order mark.
\<close>

definition is_ws :: "nat \<Rightarrow> bool" where
  "is_ws c =
     (c \<in> set [0x09, 0x0A, 0x0B, 0x0C, 0x0D, 0x20, 0xA0, 0x1680, 0x2028, 0x2029, 0x202F,
                0x205F, 0x3000, 0xFEFF]
      \<or> (0x2000 \<le> c \<and> c \<le> 0x200A))"

definition trim :: "jsstring \<Rightarrow> jsstring" where
  "trim s = rev (dropWhile is_ws (rev (dropWhile is_ws s)))"

text \<open>The value of a digit: \<^verbatim>\<open>0\<close> to \<^verbatim>\<open>9\<close>, \<^verbatim>\<open>a\<close> to \<^verbatim>\<open>f\<close> and \<^verbatim>\<open>A\<close> to \<^verbatim>\<open>F\<close>.\<close>

definition digit_of :: "nat \<Rightarrow> nat option" where
  "digit_of c =
     (if 48 \<le> c \<and> c \<le> 57 then Some (c - 48)
      else if 97 \<le> c \<and> c \<le> 102 then Some (c - 87)
      else if 65 \<le> c \<and> c \<le> 70 then Some (c - 55)
      else None)"

text \<open>The value of a non-empty run of digits in the given base, most significant first.\<close>

fun digits_acc :: "nat \<Rightarrow> int \<Rightarrow> jsstring \<Rightarrow> int option" where
  "digits_acc base acc [] = Some acc"
| "digits_acc base acc (c # cs) =
     (case digit_of c of
        None \<Rightarrow> None
      | Some d \<Rightarrow> if d < base then digits_acc base (acc * int base + int d) cs else None)"

definition digits :: "nat \<Rightarrow> jsstring \<Rightarrow> int option" where
  "digits base s = (if s = [] then None else digits_acc base 0 s)"

definition split_sign :: "jsstring \<Rightarrow> bool \<times> jsstring" where
  "split_sign s =
     (case s of
        c # cs \<Rightarrow> if c = 45 then (True, cs) else if c = 43 then (False, cs) else (False, s)
      | [] \<Rightarrow> (False, s))"

text \<open>The exponent indicator, \<^verbatim>\<open>e\<close> or \<^verbatim>\<open>E\<close>, and the decimal point.\<close>

definition is_exp_mark :: "nat \<Rightarrow> bool" where
  "is_exp_mark c = (c = 101 \<or> c = 69)"

definition is_point :: "nat \<Rightarrow> bool" where
  "is_point c = (c = 46)"

text \<open>The exponent part of a decimal literal: absent, or a mark, an optional sign and digits.\<close>

definition exponent :: "jsstring \<Rightarrow> int option" where
  "exponent s =
     (case s of
        [] \<Rightarrow> Some 0
      | _ # rest \<Rightarrow>
          (let (neg, ds) = split_sign rest in
           case digits 10 ds of
             None \<Rightarrow> None
           | Some n \<Rightarrow> Some (if neg then - n else n)))"

text \<open>The mantissa: digits, an optional point, digits; at least one digit in all.\<close>

definition mantissa :: "jsstring \<Rightarrow> rat option" where
  "mantissa s =
     (let ip = takeWhile (\<lambda>c. \<not> is_point c) s;
          fp = drop 1 (dropWhile (\<lambda>c. \<not> is_point c) s)
      in case digits 10 (ip @ fp) of
           None \<Rightarrow> None
         | Some n \<Rightarrow> Some (of_int n / 10 ^ length fp))"

definition scale10 :: "rat \<Rightarrow> int \<Rightarrow> rat" where
  "scale10 m e = (if e < 0 then m / 10 ^ nat (- e) else m * 10 ^ nat e)"

text \<open>
  A decimal literal with its optional sign: \<^verbatim>\<open>Infinity\<close>, or the mathematical value of
  the digits rounded to binary64. The sign is applied to the rounded value, so \<^verbatim>\<open>-0\<close> is
  negative zero.
\<close>

definition decimal :: "jsstring \<Rightarrow> jsnum" where
  "decimal s =
     (let (neg, body) = split_sign s;
          n = (if body = js ''Infinity'' then PosInfinity
               else
                 case (mantissa (takeWhile (\<lambda>c. \<not> is_exp_mark c) body),
                       exponent (dropWhile (\<lambda>c. \<not> is_exp_mark c) body)) of
                   (Some m, Some e) \<Rightarrow> round64 (scale10 m e)
                 | _ \<Rightarrow> NaN)
      in if neg then js_neg n else n)"

definition radix_prefix :: "jsstring \<Rightarrow> nat option" where
  "radix_prefix s =
     (if take 2 s \<in> set [js ''0x'', js ''0X''] then Some 16
      else if take 2 s \<in> set [js ''0o'', js ''0O''] then Some 8
      else if take 2 s \<in> set [js ''0b'', js ''0B''] then Some 2
      else None)"

text \<open>
  The numeric value of a string: white space is trimmed, the empty string is \<open>0\<close>, then
  come the \<^verbatim>\<open>0x\<close>, \<^verbatim>\<open>0o\<close> and \<^verbatim>\<open>0b\<close> integer literals, which take no sign, and the
  decimal literals; every other string is NaN.
\<close>

definition string_to_number :: "jsstring \<Rightarrow> jsnum" where
  "string_to_number s =
     (let t = trim s in
      if t = [] then Fin 0
      else
        case radix_prefix t of
          Some base \<Rightarrow> (case digits base (drop 2 t) of None \<Rightarrow> NaN | Some n \<Rightarrow> round64 (of_int n))
        | None \<Rightarrow> decimal t)"

text \<open>
  Converting an object to a primitive calls its \<^verbatim>\<open>valueOf\<close> and \<^verbatim>\<open>toString\<close>. A plain
  object inherits both; \<^verbatim>\<open>valueOf\<close> returns the object itself, which is no primitive, and
  \<^verbatim>\<open>toString\<close> returns \<^verbatim>\<open>[object Object]\<close>. An own property \<^verbatim>\<open>toString\<close> hides the inherited
  method and, being no function, leaves nothing to call: the conversion raises a
  TypeError. The string of an array joins the strings of its elements, so the conversion
  of an array raises when the conversion of an element does.
\<close>

fun raises :: "jsval \<Rightarrow> bool" where
  "raises (Obj ps) = (''toString'' \<in> fst ` set ps)"
| "raises (Arr vs) = list_ex raises vs"
| "raises _ = False"

definition not_primitive :: js_error where
  "not_primitive = TypeError ''Cannot convert object to primitive value''"

text \<open>
  The number of a value that does not raise. An array is first turned into a string,
  its elements joined by commas: the empty array gives the empty string, a one-element
  array the string of its element (empty for \<^verbatim>\<open>null\<close> and \<^verbatim>\<open>undefined\<close>; the string of
  a number gives the number back, negative zero without its sign), and a longer one a
  string with a comma, which is not numeric.
\<close>

fun to_number :: "jsval \<Rightarrow> jsnum" where
  "to_number Undefined = NaN"
| "to_number Null = Fin 0"
| "to_number (Bool b) = (if b then Fin 1 else Fin 0)"
| "to_number (Num n) = n"
| "to_number (Str s) = string_to_number s"
| "to_number (Obj _) = NaN"
| "to_number (Arr []) = Fin 0"
| "to_number (Arr [Undefined]) = Fin 0"
| "to_number (Arr [Bool b]) = NaN"
| "to_number (Arr [Num n]) = (if n = NegZero then Fin 0 else n)"
| "to_number (Arr [v]) = to_number v"
| "to_number (Arr _) = NaN"

text \<open>\<^verbatim>\<open>Number(v)\<close>, and the conversion that \<^verbatim>\<open>-\<close>, \<^verbatim>\<open>*\<close> and \<^verbatim>\<open>/\<close> apply to an operand.\<close>

definition Number_js :: "jsval \<Rightarrow> js_error + jsnum" where
  "Number_js v = (if raises v then Inl not_primitive else Inr (to_number v))"

section \<open>The persistence capability\<close>

text \<open>
  The document store is not part of the repository; the services consume it through
  \<^verbatim>\<open>this.model\<close>. A collection is the list of its documents in insertion order, each
  with the value of its \<^verbatim>\<open>_id\<close>, under which the store keeps it. Any call may reject:
  \<open>findRejects\<close>, \<open>queryRejects\<close>, \<open>saveRejects\<close> and \<open>removeRejects\<close> give the message of
  the rejection, if there is one (an I/O fault, a validation or a constraint of the
  collection). \<open>construct\<close> is \<^verbatim>\<open>new this.model(data)\<close>: it chooses the \<^verbatim>\<open>_id\<close> and applies
  the schema's defaults.
\<close>

type_synonym 'd document = "jsval \<times> 'd"

record ('a, 'd) model =
  modelName :: string
  docs :: "'d document list"
  construct :: "'a \<Rightarrow> 'd document list \<Rightarrow> 'd document"
  findRejects :: "jsval \<Rightarrow> string option"
  queryRejects :: "string option"
  saveRejects :: "'d document list \<Rightarrow> 'd document \<Rightarrow> string option"
  removeRejects :: "'d document \<Rightarrow> string option"

text \<open>\<^verbatim>\<open>Model.findById(id)\<close>: the document, or \<^verbatim>\<open>null\<close> (\<open>None\<close>) when there is none.\<close>

definition findById :: "('a, 'd) model \<Rightarrow> jsval \<Rightarrow> js_error + 'd document option" where
  "findById m i =
     (case findRejects m i of
        Some msg \<Rightarrow> Inl (StoreError msg)
      | None \<Rightarrow> Inr (find (\<lambda>d. fst d = i) (docs m)))"

text \<open>Writing a document: it replaces the stored document of the same id, or is appended.\<close>

fun put :: "'d document \<Rightarrow> 'd document list \<Rightarrow> 'd document list" where
  "put d [] = [d]"
| "put d (x # xs) = (if fst x = fst d then d # xs else x # put d xs)"

text \<open>\<^verbatim>\<open>item.save()\<close>.\<close>

definition save :: "('a, 'd) model \<Rightarrow> 'd document \<Rightarrow> (js_error + 'd document) \<times> ('a, 'd) model" where
  "save m d =
     (case saveRejects m (docs m) d of
        Some msg \<Rightarrow> (Inl (StoreError msg), m)
      | None \<Rightarrow> (Inr d, m\<lparr>docs := put d (docs m)\<rparr>))"

text \<open>\<^verbatim>\<open>item.remove()\<close>.\<close>

definition remove :: "('a, 'd) model \<Rightarrow> 'd document \<Rightarrow> (js_error + 'd document) \<times> ('a, 'd) model" where
  "remove m d =
     (case removeRejects m d of
        Some msg \<Rightarrow> (Inl (StoreError msg), m)
      | None \<Rightarrow> (Inr d, m\<lparr>docs := filter (\<lambda>x. fst x \<noteq> fst d) (docs m)\<rparr>))"

section \<open>BaseService\<close>

text \<open>
  \<^verbatim>\<open>getById\<close> awaits the store inside \<^verbatim>\<open>try\<close>, so a rejection is caught and wrapped. An
  absent document is the value \<^verbatim>\<open>null\<close>, returned as it is.
\<close>

definition getById :: "('a, 'd) model \<Rightarrow> jsval \<Rightarrow> js_error + 'd document option" where
  "getById m i =
     (case findById m i of
        Inl e \<Rightarrow> Inl (Error (''Error while retrieving this item : '' @ message e))
      | Inr r \<Rightarrow> Inr r)"

definition create :: "('a, 'd) model \<Rightarrow> 'a \<Rightarrow> (js_error + 'd document) \<times> ('a, 'd) model" where
  "create m data =
     (let newItem = construct m data (docs m) in
      case save m newItem of
        (Inl e, m') \<Rightarrow> (Inl (Error (''Error creating item : '' @ message e)), m')
      | (Inr d, m') \<Rightarrow> (Inr d, m'))"

subsection \<open>\<^verbatim>\<open>Object.assign(item, data)\<close>\<close>

text \<open>
  The document that \<^verbatim>\<open>update\<close> loads is an object whose own properties are \<^verbatim>\<open>_id\<close> and
  its fields, and whose methods, \<^verbatim>\<open>save\<close> among them, come from its prototype. \<^verbatim>\<open>data\<close> is
  the plain object of the request body. \<^verbatim>\<open>Object.assign\<close> sets every own property of
  \<^verbatim>\<open>data\<close> on the document, the value taken as it is:
  \<^item> \<^verbatim>\<open>_id\<close> is set like any other property, so the document then carries the supplied id;
  \<^item> setting \<^verbatim>\<open>__proto__\<close> runs the setter every object inherits: an object, an array or
    \<^verbatim>\<open>null\<close> becomes the prototype of the document, any other value is ignored, and in
    neither case is a property written;
  \<^item> setting \<^verbatim>\<open>save\<close> writes an own property that hides the method.
\<close>

type_synonym fields = "string \<rightharpoonup> jsval"

definition Object_assign :: "fields document \<Rightarrow> fields \<Rightarrow> fields document" where
  "Object_assign item data =
     (case data ''_id'' of None \<Rightarrow> fst item | Some v \<Rightarrow> v,
      (\<lambda>k. if k = ''_id'' \<or> k = ''__proto__'' then snd item k
            else case data k of None \<Rightarrow> snd item k | Some v \<Rightarrow> Some v))"

fun replaces_prototype :: "jsval \<Rightarrow> bool" where
  "replaces_prototype Null = True"
| "replaces_prototype (Obj _) = True"
| "replaces_prototype (Arr _) = True"
| "replaces_prototype _ = False"

text \<open>
  Whether \<^verbatim>\<open>item.save\<close> is still the method of the model after the assignment: no own
  property hides it and the prototype is the one the document had. A value of the request
  body is never a function.
\<close>

definition save_is_method :: "fields \<Rightarrow> bool" where
  "save_is_method data =
     (data ''save'' = None
      \<and> (case data ''__proto__'' of None \<Rightarrow> True | Some v \<Rightarrow> \<not> replaces_prototype v))"

text \<open>
  \<^verbatim>\<open>update\<close>: the lookup is awaited inside \<^verbatim>\<open>try\<close>; the not-found error is thrown inside
  the same \<^verbatim>\<open>try\<close>, so the \<^verbatim>\<open>catch\<close> wraps it like a rejection of the lookup, and so it
  does the TypeError of calling \<^verbatim>\<open>item.save\<close> when that is no function. The last
  statement is \<^verbatim>\<open>return item.save()\<close> without \<^verbatim>\<open>await\<close>: the promise leaves the
  \<^verbatim>\<open>try\<close> block before it settles, and its rejection is the rejection of \<^verbatim>\<open>update\<close>.
\<close>

definition update ::
  "('a, fields) model \<Rightarrow> jsval \<Rightarrow> fields \<Rightarrow> (js_error + fields document) \<times> ('a, fields) model" where
  "update m i data =
     (case findById m i of
        Inl e \<Rightarrow> (Inl (Error (''Error on updating item : '' @ message e)), m)
      | Inr None \<Rightarrow>
          (Inl (Error (''Error on updating item : '' @ message (Error (modelName m @ '' not found'')))), m)
      | Inr (Some item) \<Rightarrow>
          if save_is_method data then save m (Object_assign item data)
          else (Inl (Error (''Error on updating item : ''
                              @ message (TypeError ''item.save is not a function''))), m))"

text \<open>\<^verbatim>\<open>delete\<close> has the shape of \<^verbatim>\<open>update\<close>, with \<^verbatim>\<open>return item.remove()\<close>.\<close>

definition delete :: "('a, 'd) model \<Rightarrow> jsval \<Rightarrow> (js_error + 'd document) \<times> ('a, 'd) model" where
  "delete m i =
     (case findById m i of
        Inl e \<Rightarrow> (Inl (Error (''Error on deleting item : '' @ message e)), m)
      | Inr None \<Rightarrow>
          (Inl (Error (''Error on deleting item : '' @ message (Error (modelName m @ '' not found'')))), m)
      | Inr (Some item) \<Rightarrow> remove m item)"

section \<open>ProductService\<close>

text \<open>
  A review as \<^verbatim>\<open>productReview\<close> builds it; \<open>user\<close> is the string of the reviewer's id,
  the value that \<^verbatim>\<open>r.user.toString()\<close> is compared on.
\<close>

record review =
  name :: jsval
  rating :: jsnum
  comment :: jsval
  user :: string

text \<open>
  Modelled from the spec: the Product schema (\<^verbatim>\<open>models/ProductModel\<close> is not among the
  sources), a persisted record Product{name, description, price, stock, image, rating,
  numReviews, reviews}. The fields of the product carry the prefix \<open>product_\<close> where
  a review has a field of the same name.
\<close>

record product =
  product_name :: jsstring
  description :: jsstring
  price :: jsnum
  stock :: jsnum
  image :: jsstring
  product_rating :: jsnum
  numReviews :: jsnum
  reviews :: "review list"

text \<open>The \<^verbatim>\<open>user\<close> argument of \<^verbatim>\<open>productReview\<close>: \<^verbatim>\<open>user._id.toString()\<close> and \<^verbatim>\<open>user.name\<close>.\<close>

record req_user =
  user_id :: string
  user_name :: jsval

subsection \<open>Identifiers\<close>

text \<open>
  Reading an identifier that no enclosing scope binds raises a ReferenceError. A scope is
  the list of the bindings visible at the place of the read.
\<close>

definition resolve :: "(string \<times> jsval) list \<Rightarrow> string \<Rightarrow> js_error + jsval" where
  "resolve scope x =
     (case map_of scope x of
        None \<Rightarrow> Inl (ReferenceError (x @ '' is not defined''))
      | Some v \<Rightarrow> Inr v)"

text \<open>
  The bindings of the module around \<^verbatim>\<open>ProductService\<close>: its two \<^verbatim>\<open>require\<close>d constants,
  the class itself and the names that Node gives every module. Their values play no role
  here. The global object of Node has no property \<^verbatim>\<open>keyword\<close>.
\<close>

definition module_scope :: "(string \<times> jsval) list" where
  "module_scope =
     map (\<lambda>x. (x, Obj []))
       [''BaseService'', ''Product'', ''ProductService'',
        ''require'', ''module'', ''exports'', ''__filename'', ''__dirname'']"

subsection \<open>Queries\<close>

text \<open>
  The two filters \<^verbatim>\<open>allProducts\<close> builds: \<^verbatim>\<open>{}\<close> and
  \<^verbatim>\<open>{ name: { $regex: keywords, $options: 'i' } }\<close>. The regular-expression engine belongs
  to the store: \<open>rx pattern options subject\<close> says whether the subject matches.
\<close>

datatype query = MatchAll | NameRegex jsval string

fun matches :: "(jsval \<Rightarrow> string \<Rightarrow> jsstring \<Rightarrow> bool) \<Rightarrow> query \<Rightarrow> product document \<Rightarrow> bool" where
  "matches rx MatchAll d = True"
| "matches rx (NameRegex pat opts) d = rx pat opts (product_name (snd d))"

definition countDocuments ::
  "(jsval \<Rightarrow> string \<Rightarrow> jsstring \<Rightarrow> bool) \<Rightarrow> ('a, product) model \<Rightarrow> query \<Rightarrow> js_error + jsnum" where
  "countDocuments rx m q =
     (case queryRejects m of
        Some msg \<Rightarrow> Inl (StoreError msg)
      | None \<Rightarrow> Inr (js_of_nat (length (filter (matches rx q) (docs m)))))"

text \<open>
  The argument of \<^verbatim>\<open>limit\<close> and \<^verbatim>\<open>skip\<close> as a count. The store is taken to reject a
  value that is not a non-negative integer; a limit of \<open>0\<close> is no limit.
\<close>

definition cursor_arg :: "jsnum \<Rightarrow> nat option" where
  "cursor_arg n =
     (case n of
        Fin a \<Rightarrow> if 0 \<le> a \<and> of_int \<lfloor>a\<rfloor> = a then Some (nat \<lfloor>a\<rfloor>) else None
      | NegZero \<Rightarrow> Some 0
      | _ \<Rightarrow> None)"

definition find_limit_skip ::
  "(jsval \<Rightarrow> string \<Rightarrow> jsstring \<Rightarrow> bool) \<Rightarrow> ('a, product) model \<Rightarrow> query \<Rightarrow> jsnum \<Rightarrow> jsnum
     \<Rightarrow> js_error + product document list" where
  "find_limit_skip rx m q limit_arg skip_arg =
     (case queryRejects m of
        Some msg \<Rightarrow> Inl (StoreError msg)
      | None \<Rightarrow>
          (case (cursor_arg limit_arg, cursor_arg skip_arg) of
             (Some l, Some k) \<Rightarrow>
               (let found = drop k (filter (matches rx q) (docs m))
                in Inr (if l = 0 then found else take l found))
           | _ \<Rightarrow> Inl (StoreError ''limit and skip must be non-negative integers'')))"

record page_result =
  products :: "product document list"
  page :: jsval
  pages :: jsnum

text \<open>A parameter with a default takes it when the argument is \<^verbatim>\<open>undefined\<close>.\<close>

definition default_arg :: "jsval \<Rightarrow> jsval \<Rightarrow> jsval" where
  "default_arg v d = (if v = Undefined then d else v)"

text \<open>
  \<^verbatim>\<open>allProducts\<close>. The first statement computes \<^verbatim>\<open>pageSize * (pageNumber - 1)\<close>, which
  converts \<^verbatim>\<open>pageNumber\<close> and then \<^verbatim>\<open>pageSize\<close> to numbers. The condition of the filter
  reads the identifier \<^verbatim>\<open>keyword\<close>; the parameter is \<^verbatim>\<open>keywords\<close>. The read is resolved
  in the scope of the function body: its three parameters and \<^verbatim>\<open>skip\<close>, then the module.
\<close>

definition allProducts ::
  "(jsval \<Rightarrow> string \<Rightarrow> jsstring \<Rightarrow> bool) \<Rightarrow> ('a, product) model \<Rightarrow> jsval \<Rightarrow> jsval \<Rightarrow> jsval
     \<Rightarrow> js_error + page_result" where
  "allProducts rx m pageNumber0 pageSize0 keywords0 =
     (let pageNumber = default_arg pageNumber0 (Num (Fin 1));
          pageSize = default_arg pageSize0 (Num (Fin 10));
          keywords = default_arg keywords0 (Str [])
      in case Number_js pageNumber of
           Inl e \<Rightarrow> Inl e
         | Inr n \<Rightarrow>
             (case Number_js pageSize of
                Inl e \<Rightarrow> Inl e
              | Inr sz \<Rightarrow>
                  (let skip = js_mul sz (js_sub n (Fin 1));
                       scope = [(''pageNumber'', pageNumber), (''pageSize'', pageSize),
                                (''keywords'', keywords), (''skip'', Num skip)] @ module_scope
                   in case resolve scope ''keyword'' of
                        Inl e \<Rightarrow> Inl e
                      | Inr keyword \<Rightarrow>
                          (let query = (if truthy keyword then NameRegex keywords ''i'' else MatchAll)
                           in case countDocuments rx m query of
                                Inl e \<Rightarrow> Inl e
                              | Inr count \<Rightarrow>
                                  (case find_limit_skip rx m query sz skip of
                                     Inl e \<Rightarrow> Inl e
                                   | Inr ps \<Rightarrow>
                                       Inr \<lparr>products = ps, page = pageNumber,
                                            pages = js_ceil (js_div count sz)\<rparr>)))))"

subsection \<open>Reviews\<close>

text \<open>
  \<^verbatim>\<open>productReview\<close> suspends twice: at \<^verbatim>\<open>await this.getById(productId)\<close> and at
  \<^verbatim>\<open>await product.save()\<close>. What lies between runs without interruption, on the
  document that the lookup loaded: the check for a review of the same user, the new
  review with \<^verbatim>\<open>Number(rating)\<close>, and the new \<^verbatim>\<open>numReviews\<close> and \<^verbatim>\<open>rating\<close>. The sum of
  the ratings is \<^verbatim>\<open>reduce((acc, item) => item.rating + acc, 0)\<close>, from the left.
  \<open>productReview_read\<close> is the call up to the second suspension: the document it is about
  to save, or the exception that ends the call. Neither await is inside a \<^verbatim>\<open>try\<close>: a
  rejection is the rejection of \<^verbatim>\<open>productReview\<close>.
\<close>

definition productReview_read ::
  "('a, product) model \<Rightarrow> jsval \<Rightarrow> req_user \<Rightarrow> jsval \<Rightarrow> jsval \<Rightarrow> js_error + product document" where
  "productReview_read m productId u rating0 comment0 =
     (case getById m productId of
        Inl e \<Rightarrow> Inl e
      | Inr None \<Rightarrow> Inl (Error ''Product not found'')
      | Inr (Some (pid, product)) \<Rightarrow>
          (case find (\<lambda>r. user r = user_id u) (reviews product) of
             Some alreadyReviewed \<Rightarrow> Inl (Error ''Product already reviewed'')
           | None \<Rightarrow>
               (case Number_js rating0 of
                  Inl e \<Rightarrow> Inl e
                | Inr n \<Rightarrow>
                    (let review = \<lparr>name = user_name u, rating = n,
                                   comment = comment0, user = user_id u\<rparr>;
                         product1 = product\<lparr>reviews := reviews product @ [review]\<rparr>;
                         product2 = product1\<lparr>numReviews := js_of_nat (length (reviews product1))\<rparr>;
                         product3 = product2\<lparr>product_rating :=
                           js_div (foldl (\<lambda>acc item. js_add (rating item) acc) (Fin 0) (reviews product2))
                                  (js_of_nat (length (reviews product2)))\<rparr>
                     in Inr (pid, product3)))))"

text \<open>The rest of the call: \<^verbatim>\<open>await product.save()\<close>.\<close>

definition productReview_write ::
  "('a, product) model \<Rightarrow> product document \<Rightarrow> (js_error + unit) \<times> ('a, product) model" where
  "productReview_write m d =
     (case save m d of
        (Inl e, m') \<Rightarrow> (Inl e, m')
      | (Inr _, m') \<Rightarrow> (Inr (), m'))"

text \<open>
  \<^verbatim>\<open>productReview\<close> when no other call touches the store between its lookup and its
  write.
\<close>

definition productReview ::
  "('a, product) model \<Rightarrow> jsval \<Rightarrow> req_user \<Rightarrow> jsval \<Rightarrow> jsval
     \<Rightarrow> (js_error + unit) \<times> ('a, product) model" where
  "productReview m productId u rating0 comment0 =
     (case productReview_read m productId u rating0 comment0 of
        Inl e \<Rightarrow> (Inl e, m)
      | Inr d \<Rightarrow> productReview_write m d)"

subsection \<open>Sorting\<close>

text \<open>
  The value of a document at a path of the Product schema; \<open>None\<close> for a path the
  documents do not have.
\<close>

definition review_value :: "review \<Rightarrow> jsval" where
  "review_value r =
     Obj [(''name'', name r), (''rating'', Num (rating r)),
          (''comment'', comment r), (''user'', str (user r))]"

definition path_value :: "string \<Rightarrow> product document \<Rightarrow> jsval option" where
  "path_value path d =
     (if path = ''_id'' then Some (fst d)
      else if path = ''name'' then Some (Str (product_name (snd d)))
      else if path = ''description'' then Some (Str (description (snd d)))
      else if path = ''price'' then Some (Num (price (snd d)))
      else if path = ''stock'' then Some (Num (stock (snd d)))
      else if path = ''image'' then Some (Str (image (snd d)))
      else if path = ''rating'' then Some (Num (product_rating (snd d)))
      else if path = ''numReviews'' then Some (Num (numReviews (snd d)))
      else if path = ''reviews'' then Some (Arr (map review_value (reviews (snd d))))
      else None)"

text \<open>
  The store's order of sort keys: a missing or null key first, then numbers (NaN below
  every other number, the two zeros equal), then strings by their code units. Keys of
  the other types are told apart by type only.
\<close>

fun num_rank :: "jsnum \<Rightarrow> nat" where
  "num_rank NaN = 0"
| "num_rank NegInfinity = 1"
| "num_rank PosInfinity = 3"
| "num_rank _ = 2"

fun num_value :: "jsnum \<Rightarrow> rat" where
  "num_value (Fin a) = a"
| "num_value _ = 0"

definition num_lt :: "jsnum \<Rightarrow> jsnum \<Rightarrow> bool" where
  "num_lt a b =
     (num_rank a < num_rank b \<or> (num_rank a = 2 \<and> num_rank b = 2 \<and> num_value a < num_value b))"

fun str_lt :: "jsstring \<Rightarrow> jsstring \<Rightarrow> bool" where
  "str_lt _ [] = False"
| "str_lt [] (b # bs) = True"
| "str_lt (a # as) (b # bs) = (if a = b then str_lt as bs else a < b)"

fun key_rank :: "jsval option \<Rightarrow> nat" where
  "key_rank None = 0"
| "key_rank (Some Undefined) = 0"
| "key_rank (Some Null) = 0"
| "key_rank (Some (Num _)) = 1"
| "key_rank (Some (Str _)) = 2"
| "key_rank (Some (Obj _)) = 3"
| "key_rank (Some (Arr _)) = 4"
| "key_rank (Some (Bool _)) = 5"

fun key_lt :: "jsval option \<Rightarrow> jsval option \<Rightarrow> bool" where
  "key_lt (Some (Num a)) (Some (Num b)) = num_lt a b"
| "key_lt (Some (Str a)) (Some (Str b)) = str_lt a b"
| "key_lt a b = (key_rank a < key_rank b)"

text \<open>
  \<^verbatim>\<open>sort({path: dir})\<close>, stable: documents with equal keys keep the order of the
  collection. \<open>dir\<close> is \<open>1\<close> for ascending and \<open>-1\<close> for descending.
\<close>

definition precedes :: "string \<Rightarrow> int \<Rightarrow> product document \<Rightarrow> product document \<Rightarrow> bool" where
  "precedes path dir x y =
     (if dir < 0 then key_lt (path_value path y) (path_value path x)
      else key_lt (path_value path x) (path_value path y))"

fun insert_by :: "('d \<Rightarrow> 'd \<Rightarrow> bool) \<Rightarrow> 'd \<Rightarrow> 'd list \<Rightarrow> 'd list" where
  "insert_by before x [] = [x]"
| "insert_by before x (y # ys) = (if before y x then y # insert_by before x ys else x # y # ys)"

definition sort_docs :: "string \<Rightarrow> int \<Rightarrow> product document list \<Rightarrow> product document list" where
  "sort_docs path dir ds = foldr (insert_by (precedes path dir)) ds []"

text \<open>\<^verbatim>\<open>topProducts\<close>: \<^verbatim>\<open>Product.find({}).sort({range: -1}).limit(3)\<close>.\<close>

definition topProducts :: "('a, product) model \<Rightarrow> js_error + product document list" where
  "topProducts m =
     (case queryRejects m of
        Some msg \<Rightarrow> Inl (StoreError msg)
      | None \<Rightarrow> Inr (take 3 (sort_docs ''range'' (- 1) (docs m))))"

section \<open>UserController: register\<close>

text \<open>
  The attribute set \<^verbatim>\<open>register\<close> passes to \<^verbatim>\<open>create\<close>, the fields taken from the request
  body as they come.
\<close>

record user_data =
  firstname :: jsval
  lastname :: jsval
  email :: jsval
  password :: jsval

text \<open>
  Modelled from the spec: the User schema (\<^verbatim>\<open>models/UserModel\<close> is not among the
  sources), a persisted record User{firstname, lastname, email, passwordHash, isAdmin}.
  What the schema stores under \<open>password\<close> is decided by \<open>construct\<close> of the model.
\<close>

record user = user_data +
  isAdmin :: bool

text \<open>
  The message catalogues \<^verbatim>\<open>resources/lang/fr\<close> are not among the sources: a message is
  named by its key.
\<close>

datatype catalog_key =
    errorMessage_validations
  | errorMessage_user_firstname
  | errorMessage_user_lastname
  | errorMessage_user_email
  | errorMessage_user_password
  | errorMessage_user_already_exist
  | errorMessage_user_invalid_email
  | errorMessage_default
  | successMessage_user_created

text \<open>
  What \<^verbatim>\<open>res.status(code).json({ message, data })\<close> sends; \<open>payload\<close> is the \<^verbatim>\<open>data\<close>
  object, its properties in order, \<open>None\<close> when the body has none.
\<close>

record reply =
  status :: nat
  message_key :: catalog_key
  payload :: "(string \<times> jsval) list option"

text \<open>
  The HTTP response holds at most one reply. Sending sets the headers; a second send
  raises and leaves the first reply in place.
\<close>

type_synonym response = "reply option"

definition send :: "response \<Rightarrow> reply \<Rightarrow> js_error + response" where
  "send res r = (case res of None \<Rightarrow> Inr (Some r) | Some _ \<Rightarrow> Inl HeadersSent)"

text \<open>A property of the request body; \<^verbatim>\<open>undefined\<close> when the body does not have it.\<close>

definition body_prop :: "fields \<Rightarrow> string \<Rightarrow> jsval" where
  "body_prop b k = (case b k of None \<Rightarrow> Undefined | Some v \<Rightarrow> v)"

text \<open>\<^verbatim>\<open>User.findOne({ email })\<close>: the first user whose email is the given value.\<close>

definition findOne_email :: "('a, user) model \<Rightarrow> jsval \<Rightarrow> js_error + user document option" where
  "findOne_email m e =
     (case queryRejects m of
        Some msg \<Rightarrow> Inl (StoreError msg)
      | None \<Rightarrow> Inr (find (\<lambda>d. email (snd d) = e) (docs m)))"

text \<open>
  Modelled from the spec: \<^verbatim>\<open>services/UserService\<close> is not among the sources; the spec has
  UserService extend BaseService, so \<^verbatim>\<open>userService.create\<close> is \<^verbatim>\<open>BaseService.create\<close> on
  the User model.
\<close>

definition UserService_create ::
  "(user_data, user) model \<Rightarrow> user_data \<Rightarrow> (js_error + user document) \<times> (user_data, user) model" where
  "UserService_create m d = create m d"

text \<open>
  The body of the \<^verbatim>\<open>try\<close> block of \<^verbatim>\<open>register\<close>: the exception that leaves it, if any,
  the store and the response. After the 409 reply there is no \<^verbatim>\<open>return\<close>: the handler
  goes on to the email check and to \<^verbatim>\<open>create\<close>. \<open>isValidEmail\<close> is
  \<^verbatim>\<open>EmailHelper.isValidEmail\<close> and \<open>generateToken\<close> is \<^verbatim>\<open>utils/generateToken\<close>, neither
  among the sources. The created document is an object, hence truthy: the branch that
  replies 403 is never taken.
\<close>

definition register_try ::
  "(jsval \<Rightarrow> bool) \<Rightarrow> (jsval \<Rightarrow> js_error + jsval) \<Rightarrow> (user_data, user) model \<Rightarrow> user_data
     \<Rightarrow> js_error option \<times> (user_data, user) model \<times> response" where
  "register_try isValidEmail generateToken m d =
     (case findOne_email m (email d) of
        Inl e \<Rightarrow> (Some e, m, None)
      | Inr userExists \<Rightarrow>
          (case (if userExists \<noteq> None
                 then send None \<lparr>status = 409, message_key = errorMessage_user_already_exist,
                                  payload = None\<rparr>
                 else Inr None) of
             Inl e \<Rightarrow> (Some e, m, None)
           | Inr res \<Rightarrow>
               if \<not> isValidEmail (email d) then
                 (case send res \<lparr>status = 400, message_key = errorMessage_user_invalid_email,
                                 payload = None\<rparr> of
                    Inl e \<Rightarrow> (Some e, m, res)
                  | Inr res' \<Rightarrow> (None, m, res'))
               else
                 (case UserService_create m d of
                    (Inl e, m') \<Rightarrow> (Some e, m', res)
                  | (Inr createdUser, m') \<Rightarrow>
                      (case generateToken (fst createdUser) of
                         Inl e \<Rightarrow> (Some e, m', res)
                       | Inr token \<Rightarrow>
                           (case send res
                                   \<lparr>status = 201, message_key = successMessage_user_created,
                                    payload = Some
                                      [(''_id'', fst createdUser),
                                       (''firstname'', firstname (snd createdUser)),
                                       (''lastname'', lastname (snd createdUser)),
                                       (''email'', email (snd createdUser)),
                                       (''isAdmin'', Bool (isAdmin (snd createdUser))),
                                       (''token'', token)]\<rparr> of
                              Inl e \<Rightarrow> (Some e, m', res)
                            | Inr res' \<Rightarrow> (None, m', res'))))))"

text \<open>
  \<^verbatim>\<open>register\<close>, on a fresh response. The result is the exception that leaves the handler
  (which \<^verbatim>\<open>asyncHandler\<close> hands to the error middleware), the store and the response.
  The \<^verbatim>\<open>catch\<close> replies 500, which raises in its turn when a reply was already sent.
\<close>

definition register ::
  "(jsval \<Rightarrow> bool) \<Rightarrow> (jsval \<Rightarrow> js_error + jsval) \<Rightarrow> (user_data, user) model \<Rightarrow> fields option
     \<Rightarrow> js_error option \<times> (user_data, user) model \<times> response" where
  "register isValidEmail generateToken m body =
     (case body of
        None \<Rightarrow>
          (None, m, Some \<lparr>status = 422, message_key = errorMessage_validations, payload = None\<rparr>)
      | Some b \<Rightarrow>
          if \<not> truthy (body_prop b ''firstname'') then
            (None, m, Some \<lparr>status = 400, message_key = errorMessage_user_firstname, payload = None\<rparr>)
          else if \<not> truthy (body_prop b ''lastname'') then
            (None, m, Some \<lparr>status = 400, message_key = errorMessage_user_lastname, payload = None\<rparr>)
          else if \<not> truthy (body_prop b ''email'') then
            (None, m, Some \<lparr>status = 400, message_key = errorMessage_user_email, payload = None\<rparr>)
          else if \<not> truthy (body_prop b ''password'') then
            (None, m, Some \<lparr>status = 400, message_key = errorMessage_user_password, payload = None\<rparr>)
          else
            (case register_try isValidEmail generateToken m
                    \<lparr>firstname = body_prop b ''firstname'', lastname = body_prop b ''lastname'',
                     email = body_prop b ''email'', password = body_prop b ''password''\<rparr> of
               (None, m', res) \<Rightarrow> (None, m', res)
             | (Some error, m', res) \<Rightarrow>
                 (case send res \<lparr>status = 500, message_key = errorMessage_default, payload = None\<rparr> of
                    Inl e \<Rightarrow> (Some e, m', res)
                  | Inr res' \<Rightarrow> (None, m', res'))))"

section \<open>Stated properties\<close>

text \<open>
  The arithmetic mean as the specification words it, the sum of all ratings over their
  number, in the arithmetic of the language: the ratings are added in the order of the
  collection.
\<close>

fun sum_from :: "jsnum \<Rightarrow> jsnum list \<Rightarrow> jsnum" where
  "sum_from acc [] = acc"
| "sum_from acc (x # xs) = sum_from (js_add x acc) xs"

definition arithmetic_mean :: "jsnum list \<Rightarrow> jsnum" where
  "arithmetic_mean xs = js_div (sum_from (Fin 0) xs) (js_of_nat (length xs))"

text \<open>
  The product as the specification has it after the review of a user with the rating
  \<open>n\<close>: the review is appended, \<^verbatim>\<open>numReviews\<close> is the new length of the collection and
  \<^verbatim>\<open>rating\<close> the arithmetic mean of all ratings; the other fields are as they were.
\<close>

definition reviewed :: "product \<Rightarrow> req_user \<Rightarrow> jsnum \<Rightarrow> jsval \<Rightarrow> product" where
  "reviewed p u n c =
     p\<lparr>reviews := reviews p @ [\<lparr>name = user_name u, rating = n, comment = c, user = user_id u\<rparr>],
       numReviews := js_of_nat (Suc (length (reviews p))),
       product_rating := arithmetic_mean (map rating (reviews p) @ [n])\<rparr>"


text \<open>
  A run of \<^verbatim>\<open>productReview\<close> calls, each completed before the next begins: the store
  they leave. A call is its product id, its user, its rating and its comment.
\<close>

fun submit_all ::
  "('a, product) model \<Rightarrow> (jsval \<times> req_user \<times> jsval \<times> jsval) list \<Rightarrow> ('a, product) model" where
  "submit_all m [] = m"
| "submit_all m ((pid, u, r, c) # calls) = submit_all (snd (productReview m pid u r c)) calls"

text \<open>
  Modelled from the spec: the User schema (\<^verbatim>\<open>models/UserModel\<close> is not among the
  sources) makes the email unique, and the spec has the persistence layer enforce it. A
  collection of users refuses to save a document whose email is that of another stored
  document; a new document carries the email it was built from, and an id that no
  stored document has.
\<close>

definition email_taken :: "user document list \<Rightarrow> user document \<Rightarrow> bool" where
  "email_taken ds d = list_ex (\<lambda>x. fst x \<noteq> fst d \<and> email (snd x) = email (snd d)) ds"


section \<open>Example collections\<close>

text \<open>A collection none of whose calls rejects.\<close>

definition plain_model ::
  "string \<Rightarrow> ('a \<Rightarrow> 'd document list \<Rightarrow> 'd document) \<Rightarrow> 'd document list \<Rightarrow> ('a, 'd) model" where
  "plain_model nm mk ds =
     \<lparr>modelName = nm, docs = ds, construct = mk, findRejects = (\<lambda>_. None),
      queryRejects = None, saveRejects = (\<lambda>_ _. None), removeRejects = (\<lambda>_. None)\<rparr>"

text \<open>The id of the next document of a collection: \<^verbatim>\<open>n1\<close>, \<^verbatim>\<open>n11\<close>, and so on.\<close>

definition next_id :: "'d document list \<Rightarrow> jsval" where
  "next_id ds = str (CHR ''n'' # replicate (Suc (length ds)) CHR ''1'')"

definition new_fields :: "fields \<Rightarrow> fields document list \<Rightarrow> fields document" where
  "new_fields d ds = (next_id ds, d)"

text \<open>One record, with a nested object, and the same collection with a failing call.\<close>

definition ann :: "fields document" where
  "ann = (str ''u1'', [''firstname'' \<mapsto> str ''Ann'',
                       ''address'' \<mapsto> Obj [(''city'', str ''Paris''), (''zip'', str ''75001'')]])"

definition accounts :: "(fields, fields) model" where
  "accounts = plain_model ''User'' new_fields [ann]"

definition accounts_lookup_fails :: "(fields, fields) model" where
  "accounts_lookup_fails = accounts\<lparr>findRejects := (\<lambda>_. Some ''User not found'')\<rparr>"

definition accounts_save_fails :: "(fields, fields) model" where
  "accounts_save_fails = accounts\<lparr>saveRejects := (\<lambda>_ _. Some ''connection lost'')\<rparr>"

definition accounts_remove_fails :: "(fields, fields) model" where
  "accounts_remove_fails = accounts\<lparr>removeRejects := (\<lambda>_. Some ''connection lost'')\<rparr>"

text \<open>
  Modelled from the spec: the Product schema types \<^verbatim>\<open>rating\<close> and \<^verbatim>\<open>numReviews\<close> of a
  product and \<^verbatim>\<open>rating\<close> of a review as numbers. NaN cannot be cast to such a field, and
  the save of a document that holds one is rejected.
\<close>

definition number_fields :: "product document list \<Rightarrow> product document \<Rightarrow> string option" where
  "number_fields ds d =
     (if product_rating (snd d) = NaN \<or> numReviews (snd d) = NaN
         \<or> list_ex (\<lambda>r. rating r = NaN) (reviews (snd d))
      then Some ''Product validation failed: Cast to Number failed for value NaN''
      else None)"

text \<open>A product without reviews, a collection holding it, and reviewers told apart by id.\<close>

definition no_reviews :: product where
  "no_reviews =
     \<lparr>product_name = js ''Wireless Mouse'', description = js ''A mouse'', price = Fin 25,
      stock = Fin 7, image = js ''/images/mouse.jpg'', product_rating = Fin 0,
      numReviews = Fin 0, reviews = []\<rparr>"

definition new_product :: "product \<Rightarrow> product document list \<Rightarrow> product document" where
  "new_product d ds = (next_id ds, d)"

definition shop :: "(product, product) model" where
  "shop = (plain_model ''Product'' new_product [(str ''p1'', no_reviews)])\<lparr>saveRejects := number_fields\<rparr>"

definition reviewer :: "string \<Rightarrow> req_user" where
  "reviewer i = \<lparr>user_id = i, user_name = Undefined\<rparr>"



text \<open>The product after the reviews of three users with the given ratings.\<close>

definition three_reviews :: "rat \<Rightarrow> rat \<Rightarrow> rat \<Rightarrow> product" where
  "three_reviews a b c =
     reviewed (reviewed (reviewed no_reviews (reviewer ''ann'') (Fin a) Null)
                 (reviewer ''bob'') (Fin b) Null)
       (reviewer ''cy'') (Fin c) Null"

text \<open>Four products; in the order of the collection their ratings are 1, 5, 3 and 4.\<close>

definition rated :: "string \<Rightarrow> rat \<Rightarrow> product" where
  "rated n q = no_reviews\<lparr>product_name := js n, product_rating := Fin q\<rparr>"

definition catalogue :: "(product, product) model" where
  "catalogue =
     plain_model ''Product'' new_product
       [(str ''p1'', rated ''Cable'' 1), (str ''p2'', rated ''Wireless Mouse'' 5),
        (str ''p3'', rated ''Keyboard'' 3), (str ''p4'', rated ''Screen'' 4)]"

text \<open>
  A User collection with one member and the unique index on the email, a request body
  for a new member with the given email, an email check and a token issuer.
\<close>

definition new_user :: "user_data \<Rightarrow> user document list \<Rightarrow> user document" where
  "new_user d ds =
     (next_id ds,
      \<lparr>firstname = firstname d, lastname = lastname d, email = email d,
       password = password d, isAdmin = False\<rparr>)"

definition unique_index :: "user document list \<Rightarrow> user document \<Rightarrow> string option" where
  "unique_index ds d =
     (if email_taken ds d then Some ''E11000 duplicate key error collection: users index: email_1''
      else None)"

definition members :: "(user_data, user) model" where
  "members =
     (plain_model ''User'' new_user
        [(str ''u1'', \<lparr>firstname = str ''Ann'', lastname = str ''Lee'', email = str ''ann@example.com'',
                       password = str ''$2a$10$hash'', isAdmin = False\<rparr>)])
     \<lparr>saveRejects := unique_index\<rparr>"

definition signup :: "string \<Rightarrow> fields" where
  "signup e = [''firstname'' \<mapsto> str ''Bea'', ''lastname'' \<mapsto> str ''Roy'',
               ''email'' \<mapsto> str e, ''password'' \<mapsto> str ''secret'']"

definition has_at :: "jsval \<Rightarrow> bool" where
  "has_at v = (case v of Str s \<Rightarrow> 64 \<in> set s | _ \<Rightarrow> False)"

definition token_for :: "jsval \<Rightarrow> js_error + jsval" where
  "token_for i = Inr (case i of Str s \<Rightarrow> Str (js ''token-'' @ s) | _ \<Rightarrow> str ''token'')"

section \<open>Properties of BaseService\<close>

lemma find_put: "find (\<lambda>x. fst x = fst d) (put d ds) = Some d"
  by (induction ds) auto

lemma find_fst: "find (\<lambda>x. fst x = i) ds = Some d \<Longrightarrow> fst d = i"
  by (induction ds) (auto split: if_splits)

lemma set_put: "set (put d ds) \<subseteq> insert d (set ds)"
  by (induction ds) auto

lemma put_others: "x \<in> set (put d ds) \<Longrightarrow> fst x \<noteq> fst d \<Longrightarrow> x \<in> set ds"
  using set_put [of d ds] by auto

lemmas text_defs = str_def js_def

lemmas accounts_defs = accounts_def ann_def plain_model_def accounts_lookup_fails_def
  accounts_save_fails_def accounts_remove_fails_def text_defs

text \<open>
  C4, as the code has it. When the lookup succeeds and finds no record for the id,
  \<^verbatim>\<open>getById\<close> returns \<^verbatim>\<open>null\<close> and raises nothing; \<^verbatim>\<open>delete\<close> and \<^verbatim>\<open>update\<close> fail and
  leave the store as it was, with the generic error of the operation whose message is the
  operation's prefix followed by the model's name and \<^verbatim>\<open>not found\<close>.
\<close>

theorem absent_record:
  assumes "findById m i = Inr None" and "findById mf j = Inr None"
  shows "getById m i = Inr None
    \<and> delete m i = (Inl (Error (''Error on deleting item : '' @ modelName m @ '' not found'')), m)
    \<and> update mf j d = (Inl (Error (''Error on updating item : '' @ modelName mf @ '' not found'')), mf)"
  using assms by (simp add: getById_def delete_def update_def)

theorem absent_record_witness:
  "findById accounts (str ''u2'') = Inr None
   \<and> getById accounts (str ''u2'') = Inr None
   \<and> delete accounts (str ''u2'') = (Inl (Error ''Error on deleting item : User not found''), accounts)
   \<and> update accounts (str ''u2'') Map.empty
       = (Inl (Error ''Error on updating item : User not found''), accounts)"
proof -
  have h: "findById accounts (str ''u2'') = Inr None"
    by (simp add: findById_def accounts_defs)
  have n: "modelName accounts = ''User''"
    by (simp add: accounts_defs)
  from absent_record [OF h h, of Map.empty] show ?thesis
    using h by (simp add: n)
qed

text \<open>
  C4 as stated fails: for the absent id \<^verbatim>\<open>u2\<close>, \<^verbatim>\<open>getById\<close> does not fail at all, and the
  error of \<^verbatim>\<open>update\<close> is the one the same call raises when the lookup itself rejects with
  the message \<^verbatim>\<open>User not found\<close>: the absent record goes through the wrapper of the store
  failures, and so does the one of \<^verbatim>\<open>delete\<close>.
\<close>

theorem absent_record_counterexample:
  "getById accounts (str ''u2'') = Inr None
   \<and> fst (update accounts (str ''u2'') Map.empty)
       = Inl (Error ''Error on updating item : User not found'')
   \<and> fst (update accounts_lookup_fails (str ''u2'') Map.empty)
       = fst (update accounts (str ''u2'') Map.empty)
   \<and> fst (delete accounts (str ''u2'')) = Inl (Error ''Error on deleting item : User not found'')"
  by (simp add: getById_def update_def delete_def findById_def accounts_defs)

text \<open>
  C5 at a failing input: the record \<^verbatim>\<open>u1\<close> exists and the write rejects. \<^verbatim>\<open>update\<close> and
  \<^verbatim>\<open>delete\<close> reject with the store's own exception, not with the wrapped service error.
\<close>

theorem unawaited_write_escapes:
  "update accounts_save_fails (str ''u1'') [''firstname'' \<mapsto> str ''Bea'']
     = (Inl (StoreError ''connection lost''), accounts_save_fails)
   \<and> delete accounts_remove_fails (str ''u1'')
     = (Inl (StoreError ''connection lost''), accounts_remove_fails)"
  by (simp add: update_def delete_def findById_def save_def remove_def save_is_method_def
      accounts_defs)

text \<open>
  C8, as the code has it. When \<^verbatim>\<open>update(id, data)\<close> succeeds, the record existed and
  \<^verbatim>\<open>data\<close> left \<^verbatim>\<open>item.save\<close> the method it was. The returned record carries the supplied
  \<^verbatim>\<open>_id\<close> if \<^verbatim>\<open>data\<close> names one and the id of the call otherwise; each field that \<^verbatim>\<open>data\<close>
  names holds the supplied value as it is (a nested object is replaced whole), every other
  field holds what it held before, and \<^verbatim>\<open>__proto__\<close> is not written; the returned record
  is the one the store now keeps under its id, and every other stored document was
  stored before. When the record exists and \<^verbatim>\<open>data\<close> names \<^verbatim>\<open>save\<close>, or \<^verbatim>\<open>__proto__\<close> with an
  object, an array or \<^verbatim>\<open>null\<close>, \<^verbatim>\<open>update\<close> fails with the wrapped TypeError and writes
  nothing.
\<close>

theorem update_overwrites:
  "(update m i d = (Inr item', m') \<longrightarrow>
      (\<exists>item. findById m i = Inr (Some item)
         \<and> save_is_method d
         \<and> fst item' = (case d ''_id'' of None \<Rightarrow> i | Some v \<Rightarrow> v)
         \<and> (\<forall>k. k \<noteq> ''_id'' \<and> k \<noteq> ''__proto__''
               \<longrightarrow> snd item' k = (case d k of Some v \<Rightarrow> Some v | None \<Rightarrow> snd item k))
         \<and> snd item' ''__proto__'' = snd item ''__proto__''
         \<and> find (\<lambda>x. fst x = fst item') (docs m') = Some item'
         \<and> (\<forall>x \<in> set (docs m'). fst x \<noteq> fst item' \<longrightarrow> x \<in> set (docs m))))
   \<and> (findById m i = Inr (Some item0) \<and> \<not> save_is_method d \<longrightarrow>
        update m i d = (Inl (Error ''Error on updating item : item.save is not a function''), m))"
proof (intro conjI impI)
  assume a: "update m i d = (Inr item', m')"
  then obtain item where f: "findById m i = Inr (Some item)"
    and c: "save_is_method d"
    and s: "save m (Object_assign item d) = (Inr item', m')"
    by (auto simp: update_def split: sum.splits option.splits if_splits)
  from f have i: "fst item = i"
    by (auto simp: findById_def split: option.splits dest: find_fst)
  from s have e: "item' = Object_assign item d" and m': "docs m' = put item' (docs m)"
    by (auto simp: save_def split: option.splits)
  have k: "fst item' = (case d ''_id'' of None \<Rightarrow> i | Some v \<Rightarrow> v)"
    by (simp add: e Object_assign_def i split: option.splits)
  have v: "\<forall>k. k \<noteq> ''_id'' \<and> k \<noteq> ''__proto__''
               \<longrightarrow> snd item' k = (case d k of Some v \<Rightarrow> Some v | None \<Rightarrow> snd item k)"
    by (simp add: e Object_assign_def)
  have p: "snd item' ''__proto__'' = snd item ''__proto__''"
    by (simp add: e Object_assign_def)
  have st: "find (\<lambda>x. fst x = fst item') (docs m') = Some item'"
    by (simp add: m' find_put)
  have o: "\<forall>x \<in> set (docs m'). fst x \<noteq> fst item' \<longrightarrow> x \<in> set (docs m)"
    by (auto simp: m' dest: put_others)
  from f c k v p st o
  show "\<exists>item. findById m i = Inr (Some item)
         \<and> save_is_method d
         \<and> fst item' = (case d ''_id'' of None \<Rightarrow> i | Some v \<Rightarrow> v)
         \<and> (\<forall>k. k \<noteq> ''_id'' \<and> k \<noteq> ''__proto__''
               \<longrightarrow> snd item' k = (case d k of Some v \<Rightarrow> Some v | None \<Rightarrow> snd item k))
         \<and> snd item' ''__proto__'' = snd item ''__proto__''
         \<and> find (\<lambda>x. fst x = fst item') (docs m') = Some item'
         \<and> (\<forall>x \<in> set (docs m'). fst x \<noteq> fst item' \<longrightarrow> x \<in> set (docs m))"
    by blast
next
  assume "findById m i = Inr (Some item0) \<and> \<not> save_is_method d"
  then show "update m i d = (Inl (Error ''Error on updating item : item.save is not a function''), m)"
    by (simp add: update_def)
qed

theorem update_overwrites_witness:
  "update accounts (str ''u1'') [''address'' \<mapsto> Obj [(''city'', str ''Lyon'')]]
     = (Inr (Object_assign ann [''address'' \<mapsto> Obj [(''city'', str ''Lyon'')]]),
        accounts\<lparr>docs := [Object_assign ann [''address'' \<mapsto> Obj [(''city'', str ''Lyon'')]]]\<rparr>)
   \<and> fst (Object_assign ann [''address'' \<mapsto> Obj [(''city'', str ''Lyon'')]]) = str ''u1''
   \<and> snd (Object_assign ann [''address'' \<mapsto> Obj [(''city'', str ''Lyon'')]]) ''address''
       = Some (Obj [(''city'', str ''Lyon'')])
   \<and> snd (Object_assign ann [''address'' \<mapsto> Obj [(''city'', str ''Lyon'')]]) ''firstname''
       = Some (str ''Ann'')
   \<and> findById accounts (str ''u1'') = Inr (Some ann)
   \<and> \<not> save_is_method [''save'' \<mapsto> Num (Fin 1)]
   \<and> update accounts (str ''u1'') [''save'' \<mapsto> Num (Fin 1)]
       = (Inl (Error ''Error on updating item : item.save is not a function''), accounts)"
proof -
  let ?d = "[''address'' \<mapsto> Obj [(''city'', str ''Lyon'')]]"
  have f: "findById accounts (str ''u1'') = Inr (Some ann)"
    by (simp add: findById_def accounts_defs)
  have i: "fst ann = str ''u1''"
    by (simp add: ann_def)
  have d: "docs accounts = [ann]"
    by (simp add: accounts_def plain_model_def)
  have h: "update accounts (str ''u1'') ?d
     = (Inr (Object_assign ann ?d), accounts\<lparr>docs := [Object_assign ann ?d]\<rparr>)"
    by (simp add: update_def f save_def save_is_method_def d Object_assign_def i)
      (simp add: accounts_def plain_model_def i)
  have s: "\<not> save_is_method [''save'' \<mapsto> Num (Fin 1)]"
    by (simp add: save_is_method_def)
  from update_overwrites [of accounts "str ''u1''" ?d "Object_assign ann ?d"
      "accounts\<lparr>docs := [Object_assign ann ?d]\<rparr>", THEN conjunct1, rule_format, OF h]
  obtain item where f': "findById accounts (str ''u1'') = Inr (Some item)"
    and k: "fst (Object_assign ann ?d) = (case ?d ''_id'' of None \<Rightarrow> str ''u1'' | Some v \<Rightarrow> v)"
    and v: "\<forall>k. k \<noteq> ''_id'' \<and> k \<noteq> ''__proto__''
               \<longrightarrow> snd (Object_assign ann ?d) k = (case ?d k of Some v \<Rightarrow> Some v | None \<Rightarrow> snd item k)"
    by blast
  from f f' have e: "item = ann" by simp
  from k have k': "fst (Object_assign ann ?d) = str ''u1''"
    by simp
  from v [rule_format, of "''address''"] have a: "snd (Object_assign ann ?d) ''address''
       = Some (Obj [(''city'', str ''Lyon'')])"
    by simp
  from v [rule_format, of "''firstname''"] have n: "snd (Object_assign ann ?d) ''firstname''
       = Some (str ''Ann'')"
    by (simp add: e ann_def)
  from update_overwrites [of accounts "str ''u1''" "[''save'' \<mapsto> Num (Fin 1)]" _ _ ann,
      THEN conjunct2, rule_format, OF conjI, OF f s]
  have b: "update accounts (str ''u1'') [''save'' \<mapsto> Num (Fin 1)]
       = (Inl (Error ''Error on updating item : item.save is not a function''), accounts)" .
  from h k' a n f s b show ?thesis by (intro conjI)
qed

text \<open>
  C8 as stated fails on three update calls on the existing record \<^verbatim>\<open>u1\<close>. With
  \<^verbatim>\<open>{"__proto__": "x"}\<close> the call succeeds and the returned record has no field
  \<^verbatim>\<open>__proto__\<close>: the property named in \<^verbatim>\<open>data\<close> is not written. With \<^verbatim>\<open>{"save": 1}\<close>, and
  with \<^verbatim>\<open>{"__proto__": null, "firstname": "Bea"}\<close>, the call fails and the store is as it
  was: nothing named in \<^verbatim>\<open>data\<close> is overwritten.
\<close>

theorem update_overwrites_counterexample:
  "(case fst (update accounts (str ''u1'') [''__proto__'' \<mapsto> str ''x'']) of
      Inl e \<Rightarrow> False
    | Inr item \<Rightarrow> fst item = str ''u1'' \<and> snd item ''__proto__'' = None)
   \<and> update accounts (str ''u1'') [''save'' \<mapsto> Num (Fin 1)]
       = (Inl (Error ''Error on updating item : item.save is not a function''), accounts)
   \<and> update accounts (str ''u1'') [''__proto__'' \<mapsto> Null, ''firstname'' \<mapsto> str ''Bea'']
       = (Inl (Error ''Error on updating item : item.save is not a function''), accounts)"
  by (simp add: update_def findById_def save_def save_is_method_def Object_assign_def accounts_defs)

text \<open>
  The store calls that are awaited inside \<^verbatim>\<open>try\<close> are wrapped: a rejected lookup in
  \<^verbatim>\<open>getById\<close>, \<^verbatim>\<open>delete\<close> and \<^verbatim>\<open>update\<close>, and a rejected save in \<^verbatim>\<open>create\<close>, fail with
  the generic error of the operation, its message the operation's prefix followed by the
  message of the cause; the store is left as it was.
\<close>

theorem awaited_rejections_wrapped:
  "(findRejects m i = Some msg
      \<longrightarrow> getById m i = Inl (Error (''Error while retrieving this item : '' @ msg))
        \<and> delete m i = (Inl (Error (''Error on deleting item : '' @ msg)), m))
   \<and> (findRejects mf j = Some msg2
      \<longrightarrow> update mf j d = (Inl (Error (''Error on updating item : '' @ msg2)), mf))
   \<and> (saveRejects mc (docs mc) (construct mc a (docs mc)) = Some msg3
      \<longrightarrow> create mc a = (Inl (Error (''Error creating item : '' @ msg3)), mc))"
  by (simp add: getById_def delete_def update_def create_def findById_def save_def)

theorem awaited_rejections_wrapped_witness:
  "findRejects accounts_lookup_fails (str ''u1'') = Some ''User not found''
   \<and> getById accounts_lookup_fails (str ''u1'')
       = Inl (Error ''Error while retrieving this item : User not found'')
   \<and> delete accounts_lookup_fails (str ''u1'')
       = (Inl (Error ''Error on deleting item : User not found''), accounts_lookup_fails)
   \<and> update accounts_lookup_fails (str ''u1'') Map.empty
       = (Inl (Error ''Error on updating item : User not found''), accounts_lookup_fails)
   \<and> saveRejects accounts_save_fails (docs accounts_save_fails)
        (construct accounts_save_fails Map.empty (docs accounts_save_fails)) = Some ''connection lost''
   \<and> create accounts_save_fails Map.empty
       = (Inl (Error ''Error creating item : connection lost''), accounts_save_fails)"
proof -
  have f: "findRejects accounts_lookup_fails (str ''u1'') = Some ''User not found''"
    by (simp add: accounts_lookup_fails_def)
  have s: "saveRejects accounts_save_fails (docs accounts_save_fails)
        (construct accounts_save_fails Map.empty (docs accounts_save_fails)) = Some ''connection lost''"
    by (simp add: accounts_save_fails_def)
  from awaited_rejections_wrapped [of accounts_lookup_fails "str ''u1''" "''User not found''"
      accounts_lookup_fails "str ''u1''" "''User not found''" Map.empty
      accounts_save_fails Map.empty "''connection lost''"]
  show ?thesis using f s by simp
qed

section \<open>Properties of the numbers\<close>

text \<open>An integer of magnitude below \<open>2 ^ 53\<close> is a binary64 value: rounding leaves it.\<close>

lemma bit_length_pos: "0 < n \<Longrightarrow> 0 < bit_length n"
proof (induction n rule: bit_length.induct)
  case (1 n)
  from "1.prems" have "bit_length n = 1 + bit_length (n div 2)"
    by (subst bit_length.simps) simp
  moreover have "0 \<le> bit_length (n div 2)"
  proof (cases "0 < n div 2")
    case True
    with "1.IH" "1.prems" show ?thesis by simp
  next
    case False
    then show ?thesis by (subst bit_length.simps) simp
  qed
  ultimately show ?case by simp
qed

lemma bit_length_bounds:
  "0 < n \<Longrightarrow> 2 ^ nat (bit_length n - 1) \<le> n \<and> n < 2 ^ nat (bit_length n)"
proof (induction n rule: bit_length.induct)
  case (1 n)
  from "1.prems" have b: "bit_length n = 1 + bit_length (n div 2)"
    by (subst bit_length.simps) simp
  show ?case
  proof (cases "n = 1")
    case True
    have "bit_length (0::int) = 0" by (subst bit_length.simps) simp
    with True b show ?thesis by simp
  next
    case False
    with "1.prems" have h: "0 < n div 2" by simp
    with "1.IH" "1.prems" have ih: "2 ^ nat (bit_length (n div 2) - 1) \<le> n div 2"
      "n div 2 < 2 ^ nat (bit_length (n div 2))"
      by simp_all
    from bit_length_pos [OF h] have p: "0 < bit_length (n div 2)" .
    then have e: "nat (bit_length (n div 2)) = Suc (nat (bit_length (n div 2) - 1))"
      by simp
    have "(2::int) ^ nat (bit_length n - 1) = 2 * 2 ^ nat (bit_length (n div 2) - 1)"
      using p by (simp add: b e)
    also have "\<dots> \<le> 2 * (n div 2)" using ih(1) by simp
    also have "\<dots> \<le> n" by simp
    finally have lo: "2 ^ nat (bit_length n - 1) \<le> n" .
    have "n < 2 * (n div 2 + 1)" by presburger
    also have "\<dots> \<le> 2 * 2 ^ nat (bit_length (n div 2))" using ih(2) by simp
    also have "\<dots> = 2 ^ nat (bit_length n)"
      using p by (simp add: b nat_add_distrib)
    finally have "n < 2 ^ nat (bit_length n)" .
    with lo show ?thesis by simp
  qed
qed

lemma round_half_even_int: "round_half_even (of_int z) = z"
  by (simp add: round_half_even_def)

lemma round64_of_int:
  assumes "0 < k" and "k < 2 ^ 53"
  shows "round64 (of_int k) = Fin (of_int k)"
proof -
  define e where "e = bit_length k - 1"
  from bit_length_bounds [OF assms(1)] have lo: "2 ^ nat e \<le> k" and hi: "k < 2 ^ nat (bit_length k)"
    by (simp_all add: e_def)
  from bit_length_pos [OF assms(1)] have e0: "0 \<le> e" by (simp add: e_def)
  have e52: "e \<le> 52"
  proof (rule ccontr)
    assume "\<not> e \<le> 52"
    then have "53 \<le> nat e" by simp
    then have "(2::int) ^ 53 \<le> 2 ^ nat e" by (intro power_increasing) simp_all
    with lo assms(2) show False by simp
  qed
  define d where "d = nat (52 - e)"
  have fl: "floor_log2 (of_int k) = e"
    using assms(1) by (simp add: floor_log2_def e_def)
  have ulp: "pow2 (e - 52) = 1 / 2 ^ d"
  proof (cases "e = 52")
    case True
    then show ?thesis by (simp add: pow2_def d_def)
  next
    case False
    with e52 have "e - 52 < 0" by simp
    then show ?thesis by (simp add: pow2_def d_def)
  qed
  have q: "(of_int k :: rat) / (1 / 2 ^ d) = of_int (k * 2 ^ d)"
    by simp
  have big: "\<not> pow2 1024 \<le> (of_int k :: rat)"
  proof -
    have "(of_int k :: rat) < of_int (2 ^ 53)" using assms(2) by (simp only: of_int_less_iff)
    also have "\<dots> \<le> 2 ^ 1024" by simp
    finally show ?thesis by (simp add: pow2_def)
  qed
  have m: "max e (- 1022) = e" using e0 by simp
  have v: "of_int (round_half_even (of_int k / (1 / 2 ^ d))) * (1 / 2 ^ d) = (of_int k :: rat)"
    unfolding q round_half_even_int by simp
  from assms(1) have nz: "(of_int k :: rat) \<noteq> 0" and ab: "\<bar>of_int k :: rat\<bar> = of_int k"
    and pos: "\<not> (of_int k :: rat) < 0"
    by simp_all
  show ?thesis
    unfolding round64_def Let_def ab fl m ulp v
    using nz big pos by simp
qed

lemma round64_numeral [simp]:
  "numeral w < (2::int) ^ 53 \<Longrightarrow> round64 (numeral w) = Fin (numeral w)"
  using round64_of_int [of "numeral w"] by simp

lemma round64_one [simp]: "round64 1 = Fin 1"
  using round64_of_int [of 1] by simp

lemma round64_zero [simp]: "round64 0 = Fin 0"
  by (simp add: round64_def)

lemma round64_of_nat: "n < 2 ^ 53 \<Longrightarrow> round64 (of_nat n) = Fin (of_nat n)"
proof (cases "n = 0")
  case True
  then show ?thesis by simp
next
  case False
  assume "n < 2 ^ 53"
  then have "int n < 2 ^ 53" by (metis of_nat_less_iff of_nat_numeral of_nat_power)
  with False round64_of_int [of "int n"] show ?thesis by simp
qed

lemma round64_not_NaN [simp]: "round64 q \<noteq> NaN"
  by (simp add: round64_def Let_def)

lemma round64_mean_5_4_4: "round64 (13 / 3) = Fin (4878899596318037 / 1125899906842624)"
  by code_simp

text \<open>Sums of natural numbers are exact as long as they stay below \<open>2 ^ 53\<close>.\<close>

lemma sum_from_nat:
  "a + sum_list ks < 2 ^ 53 \<Longrightarrow>
     sum_from (Fin (of_nat a)) (map (\<lambda>k. Fin (of_nat k)) ks) = Fin (of_nat (a + sum_list ks))"
proof (induction ks arbitrary: a)
  case Nil
  show ?case by simp
next
  case (Cons k ks)
  from Cons.prems have b: "k + a < 2 ^ 53" and c: "(k + a) + sum_list ks < 2 ^ 53"
    by simp_all
  have "js_add (Fin (of_nat k)) (Fin (of_nat a)) = Fin (of_nat (k + a))"
    using round64_of_nat [OF b] by simp
  with Cons.IH [OF c] show ?case by (simp add: add.commute add.left_commute)
qed

lemma arithmetic_mean_nat:
  assumes "ks \<noteq> []" and "sum_list ks < 2 ^ 53" and "length ks < 2 ^ 53"
  shows "arithmetic_mean (map (\<lambda>k. Fin (of_nat k)) ks)
           = round64 (of_nat (sum_list ks) / of_nat (length ks))"
proof -
  have s: "sum_from (Fin 0) (map (\<lambda>k. Fin (of_nat k)) ks) = Fin (of_nat (sum_list ks))"
    using sum_from_nat [of 0 ks] assms(2) by simp
  have n: "js_of_nat (length ks) = Fin (of_nat (length ks))"
    using round64_of_nat [OF assms(3)] by (simp add: js_of_nat_def)
  from assms(1) have l: "length ks \<noteq> 0" by simp
  show ?thesis
  proof (cases "sum_list ks = 0")
    case True
    with l show ?thesis
      by (simp add: arithmetic_mean_def s n signed_zero_def del: sum_list_eq_0_iff)
  next
    case False
    with l show ?thesis
      by (simp add: arithmetic_mean_def s n del: sum_list_eq_0_iff)
  qed
qed

section \<open>Properties of ProductService\<close>

lemma reduce_ratings:
  "foldl (\<lambda>acc item. js_add (rating item) acc) a rs = sum_from a (map rating rs)"
  by (induction rs arbitrary: a) simp_all



text \<open>What \<^verbatim>\<open>productReview\<close> has found and computed when it reaches its write.\<close>

lemma productReview_read_Inr:
  assumes "productReview_read m pid u r c = Inr d"
  shows "\<exists>p n. findById m pid = Inr (Some (pid, p))
           \<and> find (\<lambda>x. user x = user_id u) (reviews p) = None
           \<and> Number_js r = Inr n
           \<and> d = (pid, reviewed p u n c)"
proof -
  from assms obtain q p where f: "getById m pid = Inr (Some (q, p))"
    by (auto simp: productReview_read_def split: sum.splits option.splits)
  then have f': "findById m pid = Inr (Some (q, p))"
    by (auto simp: getById_def split: sum.splits)
  then have q: "q = pid"
    by (auto simp: findById_def split: option.splits dest: find_fst)
  from assms f show ?thesis
    using f' unfolding q
    by (auto simp: productReview_read_def Let_def reviewed_def arithmetic_mean_def reduce_ratings
        split: sum.splits option.splits)
qed

lemma productReview_Inr:
  assumes "productReview m pid u r c = (Inr (), m')"
  shows "\<exists>p n. findById m pid = Inr (Some (pid, p))
           \<and> find (\<lambda>x. user x = user_id u) (reviews p) = None
           \<and> Number_js r = Inr n
           \<and> productReview_read m pid u r c = Inr (pid, reviewed p u n c)
           \<and> m' = m\<lparr>docs := put (pid, reviewed p u n c) (docs m)\<rparr>"
proof -
  from assms obtain d where r: "productReview_read m pid u r c = Inr d"
    and w: "productReview_write m d = (Inr (), m')"
    by (auto simp: productReview_def split: sum.splits)
  from w have "m' = m\<lparr>docs := put d (docs m)\<rparr>"
    by (auto simp: productReview_write_def save_def split: option.splits)
  with productReview_read_Inr [OF r] r show ?thesis by auto
qed












lemmas review_defs = productReview_def productReview_read_def productReview_write_def
  getById_def findById_def save_def Number_js_def Let_def







lemmas run_defs = review_defs shop_def plain_model_def number_fields_def reviewed_def
  arithmetic_mean_def js_of_nat_def reviewer_def no_reviews_def three_reviews_def text_defs

lemma third_review_5_3_4:
  "productReview
     (submit_all shop [(str ''p1'', reviewer ''ann'', Num (Fin 5), Null),
                       (str ''p1'', reviewer ''bob'', Num (Fin 3), Null)])
     (str ''p1'') (reviewer ''cy'') (Num (Fin 4)) Null
   = (Inr (), shop\<lparr>docs := [(str ''p1'', three_reviews 5 3 4)]\<rparr>)"
  by (simp add: run_defs)

lemma third_review_5_4_4:
  "productReview
     (submit_all shop [(str ''p1'', reviewer ''ann'', Num (Fin 5), Null),
                       (str ''p1'', reviewer ''bob'', Num (Fin 4), Null)])
     (str ''p1'') (reviewer ''cy'') (Num (Fin 4)) Null
   = (Inr (), shop\<lparr>docs := [(str ''p1'', three_reviews 5 4 4)]\<rparr>)"
  by (simp add: run_defs)

text \<open>
  C7. After a successful \<^verbatim>\<open>productReview\<close>, the store differs from the one before in the
  document of the product alone, and the product it keeps under the id is the one found
  before with the review of the call appended, its rating \<^verbatim>\<open>Number(rating)\<close>:
  \<^verbatim>\<open>numReviews\<close> is the length of the new collection and \<^verbatim>\<open>rating\<close> the arithmetic mean
  of all its ratings, the new one included. When the ratings are natural numbers, the sum
  is exact and \<^verbatim>\<open>rating\<close> is the binary64 value nearest to the exact mean.
\<close>

theorem rating_recomputed:
  assumes "productReview m pid u r c = (Inr (), m')"
  shows "\<exists>p n. findById m pid = Inr (Some (pid, p)) \<and> Number_js r = Inr n
           \<and> m' = m\<lparr>docs := put (pid, reviewed p u n c) (docs m)\<rparr>
           \<and> find (\<lambda>x. fst x = pid) (docs m') = Some (pid, reviewed p u n c)
           \<and> reviews (reviewed p u n c)
               = reviews p @ [\<lparr>name = user_name u, rating = n, comment = c, user = user_id u\<rparr>]
           \<and> numReviews (reviewed p u n c) = js_of_nat (length (reviews (reviewed p u n c)))
           \<and> product_rating (reviewed p u n c)
               = arithmetic_mean (map rating (reviews (reviewed p u n c)))
           \<and> (\<forall>ks. map rating (reviews (reviewed p u n c)) = map (\<lambda>k. Fin (of_nat k)) ks
                    \<and> sum_list ks < 2 ^ 53 \<and> length ks < 2 ^ 53
                 \<longrightarrow> product_rating (reviewed p u n c)
                       = round64 (of_nat (sum_list ks) / of_nat (length ks)))"
proof -
  from productReview_Inr [OF assms] obtain p n where
    f: "findById m pid = Inr (Some (pid, p))" and k: "Number_js r = Inr n"
    and m': "m' = m\<lparr>docs := put (pid, reviewed p u n c) (docs m)\<rparr>"
    by blast
  have s: "find (\<lambda>x. fst x = pid) (docs m') = Some (pid, reviewed p u n c)"
    using find_put [of "(pid, reviewed p u n c)" "docs m"] by (simp add: m')
  have a: "reviews (reviewed p u n c)
       = reviews p @ [\<lparr>name = user_name u, rating = n, comment = c, user = user_id u\<rparr>]"
    and l: "numReviews (reviewed p u n c) = js_of_nat (length (reviews (reviewed p u n c)))"
    and q: "product_rating (reviewed p u n c)
       = arithmetic_mean (map rating (reviews (reviewed p u n c)))"
    by (simp_all add: reviewed_def)
  have x: "\<forall>ks. map rating (reviews (reviewed p u n c)) = map (\<lambda>k. Fin (of_nat k)) ks
                    \<and> sum_list ks < 2 ^ 53 \<and> length ks < 2 ^ 53
                 \<longrightarrow> product_rating (reviewed p u n c)
                       = round64 (of_nat (sum_list ks) / of_nat (length ks))"
  proof (intro allI impI, elim conjE)
    fix ks :: "nat list"
    assume e: "map rating (reviews (reviewed p u n c)) = map (\<lambda>k. Fin (of_nat k)) ks"
      and b: "sum_list ks < 2 ^ 53" "length ks < 2 ^ 53"
    from e a have "ks \<noteq> []" by auto
    from arithmetic_mean_nat [OF this b] show "product_rating (reviewed p u n c)
        = round64 (of_nat (sum_list ks) / of_nat (length ks))"
      by (simp only: q e)
  qed
  from f k m' s a l q x show ?thesis by blast
qed

theorem rating_recomputed_witness:
  "productReview
     (submit_all shop [(str ''p1'', reviewer ''ann'', Num (Fin 5), Null),
                       (str ''p1'', reviewer ''bob'', Num (Fin 3), Null)])
     (str ''p1'') (reviewer ''cy'') (Num (Fin 4)) Null
   = (Inr (), shop\<lparr>docs := [(str ''p1'', three_reviews 5 3 4)]\<rparr>)
   \<and> map rating (reviews (three_reviews 5 3 4)) = [Fin 5, Fin 3, Fin 4]
   \<and> numReviews (three_reviews 5 3 4) = Fin 3
   \<and> product_rating (three_reviews 5 3 4) = Fin 4
   \<and> productReview
     (submit_all shop [(str ''p1'', reviewer ''ann'', Num (Fin 5), Null),
                       (str ''p1'', reviewer ''bob'', Num (Fin 4), Null)])
     (str ''p1'') (reviewer ''cy'') (Num (Fin 4)) Null
   = (Inr (), shop\<lparr>docs := [(str ''p1'', three_reviews 5 4 4)]\<rparr>)
   \<and> product_rating (three_reviews 5 4 4) = Fin (4878899596318037 / 1125899906842624)"
proof -
  let ?m = "submit_all shop [(str ''p1'', reviewer ''ann'', Num (Fin 5), Null),
                             (str ''p1'', reviewer ''bob'', Num (Fin 3), Null)]"
  let ?m' = "submit_all shop [(str ''p1'', reviewer ''ann'', Num (Fin 5), Null),
                              (str ''p1'', reviewer ''bob'', Num (Fin 4), Null)]"
  have stored: "p = q" if "find (\<lambda>x. fst x = str ''p1'') (docs (shop\<lparr>docs := [(str ''p1'', p)]\<rparr>)) = Some (str ''p1'', q)"
    for p q :: product
    using that by simp
  from rating_recomputed [OF third_review_5_3_4] obtain p n where
    f: "find (\<lambda>x. fst x = str ''p1'') (docs (shop\<lparr>docs := [(str ''p1'', three_reviews 5 3 4)]\<rparr>))
          = Some (str ''p1'', reviewed p (reviewer ''cy'') n Null)"
    and l: "numReviews (reviewed p (reviewer ''cy'') n Null)
          = js_of_nat (length (reviews (reviewed p (reviewer ''cy'') n Null)))"
    and x: "\<forall>ks. map rating (reviews (reviewed p (reviewer ''cy'') n Null)) = map (\<lambda>k. Fin (of_nat k)) ks
                    \<and> sum_list ks < 2 ^ 53 \<and> length ks < 2 ^ 53
                 \<longrightarrow> product_rating (reviewed p (reviewer ''cy'') n Null)
                       = round64 (of_nat (sum_list ks) / of_nat (length ks))"
    by blast
  from stored [OF f] have e: "reviewed p (reviewer ''cy'') n Null = three_reviews 5 3 4" by simp
  have r: "map rating (reviews (three_reviews 5 3 4)) = [Fin 5, Fin 3, Fin 4]"
    by (simp add: three_reviews_def reviewed_def no_reviews_def)
  from l have k: "numReviews (three_reviews 5 3 4) = Fin 3"
    unfolding e by (simp add: js_of_nat_def flip: length_map [of rating] add: r)
  from x [rule_format, of "[5, 3, 4]"] have a: "product_rating (three_reviews 5 3 4) = Fin 4"
    unfolding e by (simp add: r)
  from rating_recomputed [OF third_review_5_4_4] obtain p' n' where
    f': "find (\<lambda>x. fst x = str ''p1'') (docs (shop\<lparr>docs := [(str ''p1'', three_reviews 5 4 4)]\<rparr>))
          = Some (str ''p1'', reviewed p' (reviewer ''cy'') n' Null)"
    and x': "\<forall>ks. map rating (reviews (reviewed p' (reviewer ''cy'') n' Null)) = map (\<lambda>k. Fin (of_nat k)) ks
                    \<and> sum_list ks < 2 ^ 53 \<and> length ks < 2 ^ 53
                 \<longrightarrow> product_rating (reviewed p' (reviewer ''cy'') n' Null)
                       = round64 (of_nat (sum_list ks) / of_nat (length ks))"
    by blast
  from stored [OF f'] have e': "reviewed p' (reviewer ''cy'') n' Null = three_reviews 5 4 4" by simp
  have r': "map rating (reviews (three_reviews 5 4 4)) = [Fin 5, Fin 4, Fin 4]"
    by (simp add: three_reviews_def reviewed_def no_reviews_def)
  from x' [rule_format, of "[5, 4, 4]"]
  have b: "product_rating (three_reviews 5 4 4) = Fin (4878899596318037 / 1125899906842624)"
    unfolding e' by (simp add: r' round64_mean_5_4_4)
  from third_review_5_3_4 r k a third_review_5_4_4 b show ?thesis by (intro conjI)
qed


lemmas number_defs = string_to_number_def trim_def is_ws_def radix_prefix_def decimal_def
  split_sign_def mantissa_def exponent_def digits_def digit_of_def scale10_def is_exp_mark_def
  is_point_def



lemma Number_nbsp: "Number_js (Str [0xA0, 0x34, 0x2003]) = Inr (Fin 4)"
  by (simp add: Number_js_def number_defs text_defs)



text \<open>
  C2 at every input, the call \<^verbatim>\<open>allProducts(1, 10, "")\<close> over 25 products among them:
  no page is ever returned. The read of \<^verbatim>\<open>keyword\<close> raises before any query is built;
  only a page number or a page size that cannot be converted to a number raises earlier,
  in the computation of \<^verbatim>\<open>skip\<close>.
\<close>

theorem allProducts_always_fails:
  "allProducts rx m pageNumber pageSize keywords
     = Inl (if raises pageNumber \<or> raises pageSize then not_primitive
            else ReferenceError ''keyword is not defined'')
   \<and> allProducts rx m (Num (Fin 1)) (Num (Fin 10)) (Str [])
     = Inl (ReferenceError ''keyword is not defined'')"
  by (simp add: allProducts_def Let_def resolve_def module_scope_def Number_js_def default_arg_def)

text \<open>
  C3 at a failing input: the documents have no path \<^verbatim>\<open>range\<close>, all sort keys are equal,
  and \<^verbatim>\<open>topProducts\<close> returns the first three products of the collection, rated 1, 5
  and 3; the product rated 4 is left out.
\<close>

theorem topProducts_ignores_rating:
  "topProducts catalogue
     = Inr [(str ''p1'', rated ''Cable'' 1), (str ''p2'', rated ''Wireless Mouse'' 5),
            (str ''p3'', rated ''Keyboard'' 3)]
   \<and> map (\<lambda>d. product_rating (snd d)) (docs catalogue) = [Fin 1, Fin 5, Fin 3, Fin 4]"
  by (simp add: topProducts_def sort_docs_def precedes_def path_value_def catalogue_def
      plain_model_def rated_def no_reviews_def)

lemma insert_by_never: "insert_by (\<lambda>y x. False) x ys = x # ys"
  by (cases ys) simp_all

lemma sort_docs_range: "sort_docs ''range'' dir ds = ds"
proof -
  have p: "precedes ''range'' dir = (\<lambda>y x. False)"
    by (intro ext) (simp add: precedes_def path_value_def)
  show ?thesis
    unfolding sort_docs_def p by (induction ds) (simp_all add: insert_by_never)
qed

text \<open>
  What \<^verbatim>\<open>topProducts\<close> returns when the query does not reject: the first three documents
  of the collection, in the order of the collection, whatever their ratings.
\<close>

theorem topProducts_first_three:
  "queryRejects m = None \<longrightarrow> topProducts m = Inr (take 3 (docs m))"
  by (simp add: topProducts_def sort_docs_range)

theorem topProducts_first_three_witness:
  "queryRejects catalogue = None
   \<and> topProducts catalogue
      = Inr (take 3 [(str ''p1'', rated ''Cable'' 1), (str ''p2'', rated ''Wireless Mouse'' 5),
                     (str ''p3'', rated ''Keyboard'' 3), (str ''p4'', rated ''Screen'' 4)])"
proof -
  have q: "queryRejects catalogue = None"
    by (simp add: catalogue_def plain_model_def)
  have d: "docs catalogue = [(str ''p1'', rated ''Cable'' 1), (str ''p2'', rated ''Wireless Mouse'' 5),
                     (str ''p3'', rated ''Keyboard'' 3), (str ''p4'', rated ''Screen'' 4)]"
    by (simp add: catalogue_def plain_model_def)
  from topProducts_first_three [of catalogue] show ?thesis
    using q unfolding d by simp
qed

section \<open>Properties of register\<close>



lemmas members_defs = members_def plain_model_def new_user_def next_id_def unique_index_def
  email_taken_def signup_def has_at_def token_for_def text_defs


text \<open>
  C9. When \<^verbatim>\<open>register\<close> replies 201, the user was created from the four fields of the
  body, and the payload is exactly \<^verbatim>\<open>_id\<close>, \<^verbatim>\<open>firstname\<close>, \<^verbatim>\<open>lastname\<close>, \<^verbatim>\<open>email\<close> and
  \<^verbatim>\<open>isAdmin\<close> of the created record followed by the token issued for its id; it has no
  property \<^verbatim>\<open>password\<close>.
\<close>

theorem register_payload:
  assumes "register isValidEmail generateToken m body = (escaped, m', Some rp)" and "status rp = 201"
  shows "\<exists>b createdUser token.
           body = Some b
         \<and> UserService_create m \<lparr>firstname = body_prop b ''firstname'', lastname = body_prop b ''lastname'',
                email = body_prop b ''email'', password = body_prop b ''password''\<rparr> = (Inr createdUser, m')
         \<and> generateToken (fst createdUser) = Inr token
         \<and> payload rp = Some [(''_id'', fst createdUser),
                               (''firstname'', firstname (snd createdUser)),
                               (''lastname'', lastname (snd createdUser)),
                               (''email'', email (snd createdUser)),
                               (''isAdmin'', Bool (isAdmin (snd createdUser))),
                               (''token'', token)]
         \<and> ''password'' \<notin> fst ` set (the (payload rp))"
  using assms
  by (auto simp: register_def register_try_def send_def split: option.splits if_splits sum.splits prod.splits)

theorem register_payload_witness:
  "register has_at token_for members (Some (signup ''bea@example.com''))
     = (None,
        members\<lparr>docs := docs members @
          [(str ''n11'', \<lparr>firstname = str ''Bea'', lastname = str ''Roy'', email = str ''bea@example.com'',
                         password = str ''secret'', isAdmin = False\<rparr>)]\<rparr>,
        Some \<lparr>status = 201, message_key = successMessage_user_created,
              payload = Some [(''_id'', str ''n11''), (''firstname'', str ''Bea''), (''lastname'', str ''Roy''),
                              (''email'', str ''bea@example.com''), (''isAdmin'', Bool False),
                              (''token'', str ''token-n11'')]\<rparr>)
   \<and> ''password'' \<notin> fst ` set [(''_id'', str ''n11''), (''firstname'', str ''Bea''), (''lastname'', str ''Roy''),
                              (''email'', str ''bea@example.com''), (''isAdmin'', Bool False),
                              (''token'', str ''token-n11'')]"
proof -
  have h: "register has_at token_for members (Some (signup ''bea@example.com''))
     = (None,
        members\<lparr>docs := docs members @
          [(str ''n11'', \<lparr>firstname = str ''Bea'', lastname = str ''Roy'', email = str ''bea@example.com'',
                         password = str ''secret'', isAdmin = False\<rparr>)]\<rparr>,
        Some \<lparr>status = 201, message_key = successMessage_user_created,
              payload = Some [(''_id'', str ''n11''), (''firstname'', str ''Bea''), (''lastname'', str ''Roy''),
                              (''email'', str ''bea@example.com''), (''isAdmin'', Bool False),
                              (''token'', str ''token-n11'')]\<rparr>)"
    by (simp add: register_def register_try_def findOne_email_def UserService_create_def create_def
        save_def send_def body_prop_def members_defs Let_def)
  from register_payload [OF h] show ?thesis
    using h by simp
qed

end
